theory Spec2Isabelle
  imports Complex_Main "HOL-Library.Sublist"
begin

section \<open>The notebook as data\<close>

text \<open>
  The repository's source is one Jupyter notebook,
  \<^verbatim>\<open>notebooks/parameter_estimation_injection_tutorial.ipynb\<close>: a list of cells,
  each either prose (markdown) or Python code. The code cells are transcribed below
  statement by statement into the fragment of Python's abstract syntax they use, together
  with the statement kinds whose absence is of interest (definitions, handlers, branches).
  Float literals are kept as the exact decimal fractions written in the source, and
  arithmetic on them is exact; Python computes with their binary64 roundings.
\<close>

datatype operator = Add | Sub

datatype expr =
    Name string
  | Num rat
  | IntLit int
  | Str string
  | NameConstant bool
  | USub expr
  | Attribute expr string
  | Subscript expr expr
  | Call expr "expr list" "(string \<times> expr) list"
  | ListLit "expr list"
  | BinOp expr operator expr
  | Lambda "string list" expr

datatype target =
    TName string
  | TSubscript expr expr
  | TTuple "string list"

datatype stmt =
    Import "string list" "string option"
  | ImportFrom "string list" "string list"
  | Magic string
  | Assign target expr
  | Expr expr
  | For string expr "stmt list"
  | While expr "stmt list"
  | If expr "stmt list" "stmt list"
  | Try "stmt list" "stmt list" "stmt list"
  | With expr "stmt list"
  | Raise expr
  | FunctionDef string "string list" "stmt list"
  | ClassDef string "stmt list"

datatype cell = Markdown | Code "stmt list"

section \<open>Values, events and the interpreter state\<close>

text \<open>
  Everything the notebook calls lives outside the repository (bilby, numpy, matplotlib
  and Python's builtins), so a call is not interpreted: it is appended to a trace of
  events with its evaluated arguments, and its result is an opaque object named after
  the position of the event. Only the builtin \<^verbatim>\<open>dict(...)\<close> is evaluated, because
  the notebook reads its result back with a subscript.
\<close>

datatype val =
    VNum rat
  | VInt int
  | VStr string
  | VBool bool
  | VNone
  | VList "val list"
  | VDict "(string \<times> val) list"
  | VBuiltin string
  | VExt "string list"
  | VObj nat
  | VMember val string
  | VItem val val

datatype event = CallEv val "val list" "(string \<times> val) list"

datatype error =
    NameError string
  | KeyError string
  | IndexError
  | TypeError
  | Unsupported

record state =
  env :: "(string \<times> val) list"
  store :: "(val \<times> val \<times> val) list"
  trace :: "event list"

definition init :: state where
  "init = \<lparr>env = [], store = [], trace = []\<rparr>"

definition builtins :: "string list" where
  "builtins = [''dict'', ''print'']"

definition lookup :: "string \<Rightarrow> state \<Rightarrow> error + val" where
  "lookup n s =
     (case map_of (env s) n of
        Some v \<Rightarrow> Inr v
      | None \<Rightarrow> if n \<in> set builtins then Inr (VBuiltin n) else Inl (NameError n))"

definition bind :: "string \<Rightarrow> val \<Rightarrow> state \<Rightarrow> state" where
  "bind n v s = s\<lparr>env := (n, v) # env s\<rparr>"

definition emit :: "val \<Rightarrow> val list \<Rightarrow> (string \<times> val) list \<Rightarrow> state \<Rightarrow> val \<times> state" where
  "emit f vs kvs s = (VObj (length (trace s)), s\<lparr>trace := trace s @ [CallEv f vs kvs]\<rparr>)"

fun external :: "val \<Rightarrow> bool" where
  "external (VExt p) = True"
| "external (VObj n) = True"
| "external (VMember v a) = True"
| "external (VItem v k) = True"
| "external v = False"

fun arith :: "operator \<Rightarrow> rat \<Rightarrow> rat \<Rightarrow> rat" where
  "arith Add a b = a + b"
| "arith Sub a b = a - b"

fun arith_int :: "operator \<Rightarrow> int \<Rightarrow> int \<Rightarrow> int" where
  "arith_int Add a b = a + b"
| "arith_int Sub a b = a - b"

fun binop :: "operator \<Rightarrow> val \<Rightarrow> val \<Rightarrow> error + val" where
  "binop oper (VNum a) (VNum b) = Inr (VNum (arith oper a b))"
| "binop oper (VNum a) (VInt b) = Inr (VNum (arith oper a (of_int b)))"
| "binop oper (VInt a) (VNum b) = Inr (VNum (arith oper (of_int a) b))"
| "binop oper (VInt a) (VInt b) = Inr (VInt (arith_int oper a b))"
| "binop oper a b = Inl TypeError"

fun negate :: "val \<Rightarrow> error + val" where
  "negate (VNum a) = Inr (VNum (- a))"
| "negate (VInt a) = Inr (VInt (- a))"
| "negate v = Inl TypeError"

fun attribute :: "val \<Rightarrow> string \<Rightarrow> error + val" where
  "attribute (VExt p) a = Inr (VExt (p @ [a]))"
| "attribute (VObj n) a = Inr (VMember (VObj n) a)"
| "attribute (VMember v b) a = Inr (VMember (VMember v b) a)"
| "attribute (VItem v k) a = Inr (VMember (VItem v k) a)"
| "attribute (VStr t) a = Inr (VMember (VStr t) a)"
| "attribute v a = Inl Unsupported"

fun subscript :: "val \<Rightarrow> val \<Rightarrow> error + val" where
  "subscript (VDict kvs) (VStr k) =
     (case map_of kvs k of Some v \<Rightarrow> Inr v | None \<Rightarrow> Inl (KeyError k))"
| "subscript (VDict kvs) k = Inl Unsupported"
| "subscript (VList vs) (VInt i) =
     (let n = int (length vs); j = (if i < 0 then n + i else i)
      in if 0 \<le> j \<and> j < n then Inr (vs ! nat j) else Inl IndexError)"
| "subscript (VList vs) k = Inl TypeError"
| "subscript c k = (if external c then Inr (VItem c k) else Inl TypeError)"

fun apply_call :: "val \<Rightarrow> val list \<Rightarrow> (string \<times> val) list \<Rightarrow> state \<Rightarrow> error + val \<times> state" where
  "apply_call (VBuiltin b) vs kvs s =
     (if b = ''dict'' then (if vs = [] then Inr (VDict kvs, s) else Inl Unsupported)
      else if b = ''print'' then Inr (VNone, snd (emit (VBuiltin b) vs kvs s))
      else Inl Unsupported)"
| "apply_call (VExt p) vs kvs s = Inr (emit (VExt p) vs kvs s)"
| "apply_call (VMember v m) vs kvs s = Inr (emit (VMember v m) vs kvs s)"
| "apply_call f vs kvs s = Inl TypeError"

section \<open>Evaluation of expressions\<close>

text \<open>
  Python's order: the callee, then the positional arguments left to right, then the
  keyword arguments left to right. The state is threaded through, since an argument may
  itself be a call.
\<close>

function (sequential)
  eval :: "expr \<Rightarrow> state \<Rightarrow> error + val \<times> state" and
  eval_list :: "expr list \<Rightarrow> state \<Rightarrow> error + val list \<times> state" and
  eval_kws :: "(string \<times> expr) list \<Rightarrow> state \<Rightarrow> error + (string \<times> val) list \<times> state"
where
  "eval (Name n) s = (case lookup n s of Inl e \<Rightarrow> Inl e | Inr v \<Rightarrow> Inr (v, s))"
| "eval (Num r) s = Inr (VNum r, s)"
| "eval (IntLit i) s = Inr (VInt i, s)"
| "eval (Str t) s = Inr (VStr t, s)"
| "eval (NameConstant b) s = Inr (VBool b, s)"
| "eval (USub e) s =
     (case eval e s of
        Inl err \<Rightarrow> Inl err
      | Inr (v, s1) \<Rightarrow> (case negate v of Inl err \<Rightarrow> Inl err | Inr w \<Rightarrow> Inr (w, s1)))"
| "eval (Attribute e a) s =
     (case eval e s of
        Inl err \<Rightarrow> Inl err
      | Inr (v, s1) \<Rightarrow> (case attribute v a of Inl err \<Rightarrow> Inl err | Inr w \<Rightarrow> Inr (w, s1)))"
| "eval (Subscript e k) s =
     (case eval e s of
        Inl err \<Rightarrow> Inl err
      | Inr (c, s1) \<Rightarrow>
          (case eval k s1 of
             Inl err \<Rightarrow> Inl err
           | Inr (i, s2) \<Rightarrow> (case subscript c i of Inl err \<Rightarrow> Inl err | Inr w \<Rightarrow> Inr (w, s2))))"
| "eval (Call f args kws) s =
     (case eval f s of
        Inl err \<Rightarrow> Inl err
      | Inr (fv, s1) \<Rightarrow>
          (case eval_list args s1 of
             Inl err \<Rightarrow> Inl err
           | Inr (vs, s2) \<Rightarrow>
               (case eval_kws kws s2 of
                  Inl err \<Rightarrow> Inl err
                | Inr (kvs, s3) \<Rightarrow> apply_call fv vs kvs s3)))"
| "eval (ListLit es) s =
     (case eval_list es s of Inl err \<Rightarrow> Inl err | Inr (vs, s1) \<Rightarrow> Inr (VList vs, s1))"
| "eval (BinOp a oper b) s =
     (case eval a s of
        Inl err \<Rightarrow> Inl err
      | Inr (x, s1) \<Rightarrow>
          (case eval b s1 of
             Inl err \<Rightarrow> Inl err
           | Inr (y, s2) \<Rightarrow> (case binop oper x y of Inl err \<Rightarrow> Inl err | Inr w \<Rightarrow> Inr (w, s2))))"
| "eval (Lambda ps e) s = Inl Unsupported"
| "eval_list [] s = Inr ([], s)"
| "eval_list (e # es) s =
     (case eval e s of
        Inl err \<Rightarrow> Inl err
      | Inr (v, s1) \<Rightarrow>
          (case eval_list es s1 of Inl err \<Rightarrow> Inl err | Inr (vs, s2) \<Rightarrow> Inr (v # vs, s2)))"
| "eval_kws [] s = Inr ([], s)"
| "eval_kws ((k, e) # kws) s =
     (case eval e s of
        Inl err \<Rightarrow> Inl err
      | Inr (v, s1) \<Rightarrow>
          (case eval_kws kws s1 of
             Inl err \<Rightarrow> Inl err
           | Inr (kvs, s2) \<Rightarrow> Inr ((k, v) # kvs, s2)))"
  by pat_completeness auto
termination
  by (relation "measure (\<lambda>x. case x of
        Inl (e, s) \<Rightarrow> size e
      | Inr (Inl (es, s)) \<Rightarrow> size_list size es
      | Inr (Inr (kws, s)) \<Rightarrow> size_list (size_prod (\<lambda>k. 0) size) kws)") auto

section \<open>Execution of statements\<close>

text \<open>
  An item assignment \<^verbatim>\<open>obj[key] = value\<close> on an external object is recorded in the
  store, in the order of execution; \<open>item_of\<close> reads back the value assigned last.
  Tuple unpacking of an external object binds the names to its items 0, 1, ...
\<close>

definition set_item :: "val \<Rightarrow> val \<Rightarrow> val \<Rightarrow> state \<Rightarrow> error + state" where
  "set_item c k v s =
     (if external c then Inr (s\<lparr>store := store s @ [(c, k, v)]\<rparr>) else Inl Unsupported)"


definition keys_of :: "state \<Rightarrow> val \<Rightarrow> val list" where
  "keys_of s c = remdups (map (\<lambda>(c', k', v). k') (filter (\<lambda>(c', k', v). c' = c) (store s)))"

fun bind_all :: "(string \<times> val) list \<Rightarrow> state \<Rightarrow> state" where
  "bind_all [] s = s"
| "bind_all ((n, v) # nvs) s = bind_all nvs (bind n v s)"

definition unpack :: "string list \<Rightarrow> val \<Rightarrow> state \<Rightarrow> error + state" where
  "unpack ns v s =
     (case v of
        VList vs \<Rightarrow> if length vs = length ns then Inr (bind_all (zip ns vs) s) else Inl TypeError
      | _ \<Rightarrow>
          if external v
          then Inr (bind_all (zip ns (map (\<lambda>i. VItem v (VInt (int i))) [0 ..< length ns])) s)
          else Inl TypeError)"

fun assign_to :: "target \<Rightarrow> val \<Rightarrow> state \<Rightarrow> error + state" where
  "assign_to (TName n) v s = Inr (bind n v s)"
| "assign_to (TSubscript c k) v s =
     (case eval c s of
        Inl err \<Rightarrow> Inl err
      | Inr (cv, s1) \<Rightarrow>
          (case eval k s1 of Inl err \<Rightarrow> Inl err | Inr (kv, s2) \<Rightarrow> set_item cv kv v s2))"
| "assign_to (TTuple ns) v s = unpack ns v s"

primrec for_each :: "(state \<Rightarrow> error + state) \<Rightarrow> string \<Rightarrow> val list \<Rightarrow> state \<Rightarrow> error + state" where
  "for_each body v [] s = Inr s"
| "for_each body v (x # xs) s =
     (case body (bind v x s) of Inl err \<Rightarrow> Inl err | Inr s1 \<Rightarrow> for_each body v xs s1)"

text \<open>
  The right-hand side of an assignment is evaluated before its target. A \<^verbatim>\<open>for\<close> loop
  runs its body once per element of the list it iterates over. The statement kinds the
  notebook does not use have no semantics here: executing one is the error
  \<open>Unsupported\<close>.
\<close>

function (sequential)
  exec :: "stmt \<Rightarrow> state \<Rightarrow> error + state" and
  exec_block :: "stmt list \<Rightarrow> state \<Rightarrow> error + state"
where
  "exec (Import m alias) s =
     (case alias of
        Some a \<Rightarrow> Inr (bind a (VExt m) s)
      | None \<Rightarrow> (case m of [] \<Rightarrow> Inl Unsupported | r # rest \<Rightarrow> Inr (bind r (VExt [r]) s)))"
| "exec (ImportFrom m ns) s = Inr (bind_all (map (\<lambda>n. (n, VExt (m @ [n]))) ns) s)"
| "exec (Magic t) s = Inr s"
| "exec (Assign t e) s =
     (case eval e s of Inl err \<Rightarrow> Inl err | Inr (v, s1) \<Rightarrow> assign_to t v s1)"
| "exec (Expr e) s = (case eval e s of Inl err \<Rightarrow> Inl err | Inr (v, s1) \<Rightarrow> Inr s1)"
| "exec (For v it body) s =
     (case eval it s of
        Inl err \<Rightarrow> Inl err
      | Inr (VList xs, s1) \<Rightarrow> for_each (\<lambda>t. exec_block body t) v xs s1
      | Inr (w, s1) \<Rightarrow> Inl Unsupported)"
| "exec st s = Inl Unsupported"
| "exec_block [] s = Inr s"
| "exec_block (st # sts) s =
     (case exec st s of Inl err \<Rightarrow> Inl err | Inr s1 \<Rightarrow> exec_block sts s1)"
  by pat_completeness auto
termination
  by (relation "measure (\<lambda>x. case x of
        Inl (st, s) \<Rightarrow> size st
      | Inr (sts, s) \<Rightarrow> size_list size sts)") auto

definition statements :: "cell list \<Rightarrow> stmt list" where
  "statements nb = concat (map (\<lambda>c. case c of Markdown \<Rightarrow> [] | Code sts \<Rightarrow> sts) nb)"

definition run :: "cell list \<Rightarrow> error + state" where
  "run nb = exec_block (statements nb) init"

text \<open>
  \<open>state_before n\<close> is the state in which the statement that makes call \<open>n\<close> starts:
  the cell statements are executed in order up to, and without, the first one after
  which the trace is longer than \<open>n\<close>.
\<close>

fun exec_until :: "nat \<Rightarrow> stmt list \<Rightarrow> state \<Rightarrow> error + state" where
  "exec_until n [] s = Inr s"
| "exec_until n (st # sts) s =
     (case exec st s of
        Inl err \<Rightarrow> Inl err
      | Inr s1 \<Rightarrow> if n < length (trace s1) then Inr s else exec_until n sts s1)"

definition state_before :: "nat \<Rightarrow> cell list \<Rightarrow> error + state" where
  "state_before n nb = exec_until n (statements nb) init"

section \<open>The notebook\<close>

text \<open>
  \<open>dotted\<close> writes a dotted name such as \<^verbatim>\<open>bilby.gw.WaveformGenerator\<close>: attribute
  accesses on a name, from left to right.
\<close>

definition dotted :: "string \<Rightarrow> string list \<Rightarrow> expr" where
  "dotted n as = foldl Attribute (Name n) as"

text \<open>Cell 5: the imports.\<close>

definition cell_5 :: "stmt list" where
  "cell_5 =
    [ImportFrom [''__future__''] [''division'', ''print_function''],
     Import [''numpy''] (Some ''np''),
     Import [''matplotlib'', ''pyplot''] (Some ''plt''),
     Import [''bilby''] None,
     ImportFrom [''bilby'', ''core'', ''prior''] [''Uniform''],
     ImportFrom [''bilby'', ''gw'', ''conversion'']
       [''convert_to_lal_binary_black_hole_parameters'', ''generate_all_bbh_parameters''],
     Magic ''matplotlib inline'']"

text \<open>Cell 7: \<^verbatim>\<open>print(bilby.__version__)\<close>.\<close>

definition cell_7 :: "stmt list" where
  "cell_7 = [Expr (Call (Name ''print'') [dotted ''bilby'' [''__version__'']] [])]"

text \<open>Cell 10: \<^verbatim>\<open>np.random.seed(1234)\<close>.\<close>

definition cell_10 :: "stmt list" where
  "cell_10 = [Expr (Call (dotted ''np'' [''random'', ''seed'']) [IntLit 1234] [])]"

text \<open>Cell 12: the injection parameters, a \<^verbatim>\<open>dict(...)\<close> of float literals.\<close>

definition cell_12 :: "stmt list" where
  "cell_12 =
    [Assign (TName ''injection_parameters'')
       (Call (Name ''dict'') []
          [(''mass_1'', Num 36.0), (''mass_2'', Num 29.0), (''a_1'', Num 0.4),
           (''a_2'', Num 0.3), (''tilt_1'', Num 0.5), (''tilt_2'', Num 1.0),
           (''phi_12'', Num 1.7), (''phi_jl'', Num 0.3),
           (''luminosity_distance'', Num 2000.0), (''theta_jn'', Num 0.4),
           (''psi'', Num 2.659), (''phase'', Num 1.3),
           (''geocent_time'', Num 1126259642.413), (''ra'', Num 1.375),
           (''dec'', USub (Num 1.2108))])]"

text \<open>Cell 14: the waveform arguments, the duration and the sampling frequency.\<close>

definition cell_14 :: "stmt list" where
  "cell_14 =
    [Assign (TName ''waveform_arguments'')
       (Call (Name ''dict'') []
          [(''waveform_approximant'', Str ''IMRPhenomPv2''),
           (''reference_frequency'', Num 50.0), (''minimum_frequency'', Num 20.0),
           (''catch_waveform_errors'', NameConstant True)]),
     Assign (TName ''duration'') (Num 4.0),
     Assign (TName ''sampling_frequency'') (Num 2048.0)]"

text \<open>Cell 16: the waveform generator.\<close>

definition cell_16 :: "stmt list" where
  "cell_16 =
    [Assign (TName ''waveform_generator'')
       (Call (dotted ''bilby'' [''gw'', ''WaveformGenerator'']) []
          [(''duration'', Name ''duration''),
           (''sampling_frequency'', Name ''sampling_frequency''),
           (''frequency_domain_source_model'',
              dotted ''bilby'' [''gw'', ''source'', ''lal_binary_black_hole'']),
           (''parameter_conversion'',
              dotted ''bilby''
                [''gw'', ''conversion'', ''convert_to_lal_binary_black_hole_parameters'']),
           (''waveform_arguments'', Name ''waveform_arguments'')])]"

text \<open>Cell 18: the two interferometers, their simulated strain data, the injection.\<close>

definition cell_18 :: "stmt list" where
  "cell_18 =
    [Assign (TName ''ifos'')
       (Call (dotted ''bilby'' [''gw'', ''detector'', ''InterferometerList''])
          [ListLit [Str ''H1'', Str ''L1'']] []),
     Expr (Call (dotted ''ifos'' [''set_strain_data_from_power_spectral_densities'']) []
          [(''sampling_frequency'', Name ''sampling_frequency''),
           (''duration'', Name ''duration''),
           (''start_time'',
              BinOp (Subscript (Name ''injection_parameters'') (Str ''geocent_time'')) Sub
                (IntLit 3))]),
     Assign (TName ''injection'')
       (Call (dotted ''ifos'' [''inject_signal'']) []
          [(''waveform_generator'', Name ''waveform_generator''),
           (''parameters'', Name ''injection_parameters'')])]"

text \<open>Cell 20: a plot of the data, the amplitude spectral density and the injection.\<close>

definition cell_20 :: "stmt list" where
  "cell_20 =
    [Assign (TName ''H1'') (Subscript (Name ''ifos'') (IntLit 0)),
     Assign (TName ''H1_injection'') (Subscript (Name ''injection'') (IntLit 0)),
     Assign (TTuple [''fig'', ''ax'']) (Call (dotted ''plt'' [''subplots'']) [] []),
     Assign (TName ''idxs'') (dotted ''H1'' [''strain_data'', ''frequency_mask'']),
     Expr (Call (dotted ''ax'' [''loglog''])
          [Subscript (dotted ''H1'' [''strain_data'', ''frequency_array'']) (Name ''idxs''),
           Call (dotted ''np'' [''abs''])
             [Subscript (dotted ''H1'' [''strain_data'', ''frequency_domain_strain''])
                (Name ''idxs'')] []]
          [(''label'', Str ''data'')]),
     Expr (Call (dotted ''ax'' [''loglog''])
          [Subscript (dotted ''H1'' [''frequency_array'']) (Name ''idxs''),
           Subscript (dotted ''H1'' [''amplitude_spectral_density_array'']) (Name ''idxs'')]
          [(''label'', Str ''ASD'')]),
     Expr (Call (dotted ''ax'' [''loglog''])
          [Subscript (dotted ''H1'' [''frequency_array'']) (Name ''idxs''),
           Call (dotted ''np'' [''abs''])
             [Subscript (Subscript (Name ''H1_injection'') (Str ''plus'')) (Name ''idxs'')] []]
          [(''label'', Str ''Abs. val. of plus polarization'')]),
     Expr (Call (dotted ''ax'' [''set_xlabel'']) [Str ''Frequency [Hz]''] []),
     Expr (Call (dotted ''ax'' [''set_ylabel''])
          [Str (''Strain [strain/$'' @ [CHR 0x5C] @ ''sqrt{Hz}$]'')] []),
     Expr (Call (dotted ''ax'' [''legend'']) [] []),
     Expr (Call (dotted ''plt'' [''show'']) [] [])]"

text \<open>
  Cell 23: the prior. Three entries are \<^verbatim>\<open>Uniform\<close> priors; the loop copies the other
  twelve from the injection parameters.
\<close>

definition cell_23 :: "stmt list" where
  "cell_23 =
    [Assign (TName ''prior'') (Call (dotted ''bilby'' [''core'', ''prior'', ''PriorDict'']) [] []),
     Assign (TSubscript (Name ''prior'') (Str ''chirp_mass''))
       (Call (Name ''Uniform'') []
          [(''name'', Str ''chirp_mass''), (''minimum'', Num 30.0), (''maximum'', Num 32.5)]),
     Assign (TSubscript (Name ''prior'') (Str ''mass_ratio''))
       (Call (Name ''Uniform'') []
          [(''name'', Str ''mass_ratio''), (''minimum'', Num 0.5), (''maximum'', IntLit 1)]),
     Assign (TSubscript (Name ''prior'') (Str ''geocent_time''))
       (Call (Name ''Uniform'') []
          [(''minimum'',
              BinOp (Subscript (Name ''injection_parameters'') (Str ''geocent_time'')) Sub
                (IntLit 1)),
           (''maximum'',
              BinOp (Subscript (Name ''injection_parameters'') (Str ''geocent_time'')) Add
                (IntLit 1)),
           (''name'', Str ''geocent_time''), (''latex_label'', Str ''$t_c$''),
           (''unit'', Str ''$s$'')]),
     For ''key''
       (ListLit
          [Str ''a_1'', Str ''a_2'', Str ''tilt_1'', Str ''tilt_2'', Str ''phi_12'',
           Str ''phi_jl'', Str ''psi'', Str ''ra'', Str ''dec'', Str ''luminosity_distance'',
           Str ''theta_jn'', Str ''phase''])
       [Assign (TSubscript (Name ''prior'') (Name ''key''))
          (Subscript (Name ''injection_parameters'') (Name ''key''))]]"

text \<open>Cell 24 displays the prior.\<close>

definition cell_24 :: "stmt list" where
  "cell_24 = [Expr (Name ''prior'')]"

text \<open>Cell 26: the likelihood.\<close>

definition cell_26 :: "stmt list" where
  "cell_26 =
    [Assign (TName ''likelihood'')
       (Call (dotted ''bilby'' [''gw'', ''likelihood'', ''GravitationalWaveTransient'']) []
          [(''interferometers'', Name ''ifos''),
           (''waveform_generator'', Name ''waveform_generator''),
           (''priors'', Name ''prior''),
           (''time_marginalization'', NameConstant True),
           (''phase_marginalization'', NameConstant True),
           (''distance_marginalization'', NameConstant False)])]"

text \<open>Cell 30: the sampler.\<close>

definition cell_30 :: "stmt list" where
  "cell_30 =
    [Assign (TName ''result_short'')
       (Call (dotted ''bilby'' [''run_sampler''])
          [Name ''likelihood'', Name ''prior'']
          [(''sampler'', Str ''nestle''), (''outdir'', Str ''short''),
           (''label'', Str ''GW150914''),
           (''conversion_function'',
              dotted ''bilby'' [''gw'', ''conversion'', ''generate_all_bbh_parameters'']),
           (''sample'', Str ''unif''), (''nlive'', IntLit 500), (''dlogz'', IntLit 3)])]"

text \<open>Cells 33 to 39: the posterior samples and the credible interval.\<close>

definition cell_33 :: "stmt list" where
  "cell_33 = [Expr (dotted ''result_short'' [''posterior''])]"

definition cell_35 :: "stmt list" where
  "cell_35 = [Expr (Subscript (dotted ''result_short'' [''posterior'']) (Str ''chirp_mass''))]"

definition cell_37 :: "stmt list" where
  "cell_37 =
    [Assign (TName ''Mc'')
       (Attribute (Subscript (dotted ''result_short'' [''posterior'']) (Str ''chirp_mass''))
          ''values'')]"

definition cell_39 :: "stmt list" where
  "cell_39 =
    [Assign (TName ''lower_bound'')
       (Call (dotted ''np'' [''quantile'']) [Name ''Mc'', Num 0.05] []),
     Assign (TName ''upper_bound'')
       (Call (dotted ''np'' [''quantile'']) [Name ''Mc'', Num 0.95] []),
     Assign (TName ''median'')
       (Call (dotted ''np'' [''quantile'']) [Name ''Mc'', Num 0.5] []),
     Expr (Call (Name ''print'')
          [Call (Attribute (Str ''Mc = {} with a 90% C.I = {} -> {}'') ''format'')
             [Name ''median'', Name ''lower_bound'', Name ''upper_bound''] []] [])]"

text \<open>Cells 41 to 45: the histogram and the corner plots.\<close>

definition cell_41 :: "stmt list" where
  "cell_41 =
    [Assign (TTuple [''fig'', ''ax'']) (Call (dotted ''plt'' [''subplots'']) [] []),
     Expr (Call (dotted ''ax'' [''hist''])
          [Subscript (dotted ''result_short'' [''posterior'']) (Str ''chirp_mass'')]
          [(''bins'', IntLit 20)]),
     Expr (Call (dotted ''ax'' [''axvspan'']) [Name ''lower_bound'', Name ''upper_bound'']
          [(''color'', Str ''C1''), (''alpha'', Num 0.4)]),
     Expr (Call (dotted ''ax'' [''axvline'']) [Name ''median''] [(''color'', Str ''C1'')]),
     Expr (Call (dotted ''ax'' [''set_xlabel'']) [Str ''chirp mass''] []),
     Expr (Call (dotted ''plt'' [''show'']) [] [])]"

definition cell_43 :: "stmt list" where
  "cell_43 =
    [Expr (Call (dotted ''result_short'' [''plot_corner'']) []
          [(''parameters'', ListLit [Str ''chirp_mass'', Str ''mass_ratio'', Str ''geocent_time'']),
           (''prior'', NameConstant True)])]"

definition cell_45 :: "stmt list" where
  "cell_45 =
    [Assign (TName ''parameters'')
       (Call (Name ''dict'') [] [(''mass_1'', IntLit 36), (''mass_2'', IntLit 29)]),
     Expr (Call (dotted ''result_short'' [''plot_corner'']) [Name ''parameters''] [])]"

text \<open>Cells 48 to 52: the meta data and the Bayes factor.\<close>

definition cell_48 :: "stmt list" where
  "cell_48 = [Expr (dotted ''result_short'' [''priors''])]"

definition cell_50 :: "stmt list" where
  "cell_50 = [Expr (Subscript (dotted ''result_short'' [''sampler_kwargs'']) (Str ''npoints''))]"

definition cell_52 :: "stmt list" where
  "cell_52 =
    [Expr (Call (Name ''print'')
          [Call (Attribute (Str ''ln Bayes factor = {} +/- {}'') ''format'')
             [dotted ''result_short'' [''log_bayes_factor''],
              dotted ''result_short'' [''log_evidence_err'']] []] [])]"

text \<open>
  The 55 cells in the order of the file. Cell 2 holds only comments and cell 54 is empty.
\<close>

definition notebook :: "cell list" where
  "notebook =
    [Markdown, Markdown, Code [], Markdown, Markdown, Code cell_5, Markdown, Code cell_7,
     Markdown, Markdown, Code cell_10, Markdown, Code cell_12, Markdown, Code cell_14,
     Markdown, Code cell_16, Markdown, Code cell_18, Markdown, Code cell_20, Markdown,
     Markdown, Code cell_23, Code cell_24, Markdown, Code cell_26, Markdown, Markdown,
     Markdown, Code cell_30, Markdown, Markdown, Code cell_33, Markdown, Code cell_35,
     Markdown, Code cell_37, Markdown, Code cell_39, Markdown, Code cell_41, Markdown,
     Code cell_43, Markdown, Code cell_45, Markdown, Markdown, Code cell_48, Markdown,
     Code cell_50, Markdown, Code cell_52, Markdown, Code []]"

section \<open>Reading the notebook's syntax\<close>

text \<open>
  \<open>sub_exprs\<close> lists an expression and every expression inside it; \<open>sub_stmts\<close> lists a
  statement and every statement nested in it. \<open>all_stmts\<close> and \<open>all_exprs\<close> are then all
  statements and all expressions of the notebook's code cells.
\<close>

function (sequential)
  sub_exprs :: "expr \<Rightarrow> expr list" and
  sub_exprs_list :: "expr list \<Rightarrow> expr list" and
  sub_exprs_kws :: "(string \<times> expr) list \<Rightarrow> expr list"
where
  "sub_exprs (USub e) = USub e # sub_exprs e"
| "sub_exprs (Attribute e a) = Attribute e a # sub_exprs e"
| "sub_exprs (Subscript e k) = Subscript e k # sub_exprs e @ sub_exprs k"
| "sub_exprs (Call f args kws) =
     Call f args kws # sub_exprs f @ sub_exprs_list args @ sub_exprs_kws kws"
| "sub_exprs (ListLit es) = ListLit es # sub_exprs_list es"
| "sub_exprs (BinOp a oper b) = BinOp a oper b # sub_exprs a @ sub_exprs b"
| "sub_exprs (Lambda ps e) = Lambda ps e # sub_exprs e"
| "sub_exprs e = [e]"
| "sub_exprs_list [] = []"
| "sub_exprs_list (e # es) = sub_exprs e @ sub_exprs_list es"
| "sub_exprs_kws [] = []"
| "sub_exprs_kws ((k, e) # kws) = sub_exprs e @ sub_exprs_kws kws"
  by pat_completeness auto
termination
  by (relation "measure (\<lambda>x. case x of
        Inl e \<Rightarrow> size e
      | Inr (Inl es) \<Rightarrow> size_list size es
      | Inr (Inr kws) \<Rightarrow> size_list (size_prod (\<lambda>k. 0) size) kws)") auto

fun target_exprs :: "target \<Rightarrow> expr list" where
  "target_exprs (TSubscript c k) = [c, k]"
| "target_exprs t = []"

fun stmt_exprs :: "stmt \<Rightarrow> expr list" where
  "stmt_exprs (Assign t e) = e # target_exprs t"
| "stmt_exprs (Expr e) = [e]"
| "stmt_exprs (For v it body) = [it]"
| "stmt_exprs (While c body) = [c]"
| "stmt_exprs (If c a b) = [c]"
| "stmt_exprs (With e body) = [e]"
| "stmt_exprs (Raise e) = [e]"
| "stmt_exprs st = []"

function (sequential)
  sub_stmts :: "stmt \<Rightarrow> stmt list" and
  sub_stmts_list :: "stmt list \<Rightarrow> stmt list"
where
  "sub_stmts (For v it body) = For v it body # sub_stmts_list body"
| "sub_stmts (While c body) = While c body # sub_stmts_list body"
| "sub_stmts (If c a b) = If c a b # sub_stmts_list a @ sub_stmts_list b"
| "sub_stmts (Try body hs fin) =
     Try body hs fin # sub_stmts_list body @ sub_stmts_list hs @ sub_stmts_list fin"
| "sub_stmts (With e body) = With e body # sub_stmts_list body"
| "sub_stmts (FunctionDef f ps body) = FunctionDef f ps body # sub_stmts_list body"
| "sub_stmts (ClassDef c body) = ClassDef c body # sub_stmts_list body"
| "sub_stmts st = [st]"
| "sub_stmts_list [] = []"
| "sub_stmts_list (st # sts) = sub_stmts st @ sub_stmts_list sts"
  by pat_completeness auto
termination
  by (relation "measure (\<lambda>x. case x of
        Inl st \<Rightarrow> size st
      | Inr sts \<Rightarrow> size_list size sts)") auto

definition all_stmts :: "cell list \<Rightarrow> stmt list" where
  "all_stmts nb = sub_stmts_list (statements nb)"

definition all_exprs :: "cell list \<Rightarrow> expr list" where
  "all_exprs nb = sub_exprs_list (concat (map stmt_exprs (all_stmts nb)))"

text \<open>What a notebook defines itself: functions, classes and lambda expressions.\<close>

fun is_definition :: "stmt \<Rightarrow> bool" where
  "is_definition (FunctionDef f ps body) = True"
| "is_definition (ClassDef c body) = True"
| "is_definition st = False"

fun is_lambda :: "expr \<Rightarrow> bool" where
  "is_lambda (Lambda ps e) = True"
| "is_lambda e = False"

definition local_definitions :: "cell list \<Rightarrow> stmt list" where
  "local_definitions nb = filter is_definition (all_stmts nb)"

definition lambdas :: "cell list \<Rightarrow> expr list" where
  "lambdas nb = filter is_lambda (all_exprs nb)"

text \<open>The arithmetic a notebook does itself.\<close>

fun is_binop :: "expr \<Rightarrow> bool" where
  "is_binop (BinOp a oper b) = True"
| "is_binop e = False"

definition arithmetic :: "cell list \<Rightarrow> expr list" where
  "arithmetic nb = filter is_binop (all_exprs nb)"




fun imported :: "stmt \<Rightarrow> string list list" where
  "imported (Import m a) = [m]"
| "imported (ImportFrom m ns) = [m]"
| "imported st = []"

definition imported_modules :: "cell list \<Rightarrow> string list list" where
  "imported_modules nb = concat (map imported (all_stmts nb))"


section \<open>Reading the trace\<close>

fun callee :: "event \<Rightarrow> val" where
  "callee (CallEv f vs kvs) = f"

fun args :: "event \<Rightarrow> val list" where
  "args (CallEv f vs kvs) = vs"

fun kwarg :: "event \<Rightarrow> string \<Rightarrow> val option" where
  "kwarg (CallEv f vs kvs) k = map_of kvs k"

text \<open>
  The name a call goes by: the last component of a dotted external name, the method
  name of a method call, the name of a builtin.
\<close>

fun callee_name :: "event \<Rightarrow> string" where
  "callee_name (CallEv (VExt p) vs kvs) = (if p = [] then [] else last p)"
| "callee_name (CallEv (VMember v m) vs kvs) = m"
| "callee_name (CallEv (VBuiltin b) vs kvs) = b"
| "callee_name e = []"

text \<open>
  The objects a value mentions, by the index of the event that returned them; for an
  event, the objects its callee and its arguments mention.
\<close>

function (sequential)
  objects :: "val \<Rightarrow> nat list" and
  objects_list :: "val list \<Rightarrow> nat list" and
  objects_kws :: "(string \<times> val) list \<Rightarrow> nat list"
where
  "objects (VObj n) = [n]"
| "objects (VMember v a) = objects v"
| "objects (VItem v k) = objects v @ objects k"
| "objects (VList vs) = objects_list vs"
| "objects (VDict kvs) = objects_kws kvs"
| "objects v = []"
| "objects_list [] = []"
| "objects_list (v # vs) = objects v @ objects_list vs"
| "objects_kws [] = []"
| "objects_kws ((k, v) # kvs) = objects v @ objects_kws kvs"
  by pat_completeness auto
termination
  by (relation "measure (\<lambda>x. case x of
        Inl v \<Rightarrow> size v
      | Inr (Inl vs) \<Rightarrow> size_list size vs
      | Inr (Inr kvs) \<Rightarrow> size_list (size_prod (\<lambda>k. 0) size) kvs)") auto

fun event_objects :: "event \<Rightarrow> nat list" where
  "event_objects (CallEv f vs kvs) = objects f @ objects_list vs @ objects_kws kvs"

text \<open>The trace of a run: the external calls in the order in which they were made.\<close>

definition trace_of :: "cell list \<Rightarrow> event list" where
  "trace_of nb = (case run nb of Inl e \<Rightarrow> [] | Inr s \<Rightarrow> trace s)"

section \<open>Reading the state\<close>



definition prior_keys :: "state \<Rightarrow> val list" where
  "prior_keys s = (case lookup ''prior'' s of Inl e \<Rightarrow> [] | Inr p \<Rightarrow> keys_of s p)"


text \<open>
  The expressions assigned to a variable, the objects whose items are assigned, and the
  expressions that are literals.
\<close>

fun assigned :: "string \<Rightarrow> stmt \<Rightarrow> expr list" where
  "assigned n (Assign (TName m) e) = (if m = n then [e] else [])"
| "assigned n st = []"

definition assignments :: "string \<Rightarrow> cell list \<Rightarrow> expr list" where
  "assignments n nb = concat (map (assigned n) (all_stmts nb))"

fun item_target :: "stmt \<Rightarrow> expr list" where
  "item_target (Assign (TSubscript c k) e) = [c]"
| "item_target st = []"

definition item_targets :: "cell list \<Rightarrow> expr list" where
  "item_targets nb = concat (map item_target (all_stmts nb))"

fun is_literal :: "expr \<Rightarrow> bool" where
  "is_literal (Num r) = True"
| "is_literal (IntLit i) = True"
| "is_literal (Str t) = True"
| "is_literal (NameConstant b) = True"
| "is_literal (USub (Num r)) = True"
| "is_literal (USub (IntLit i)) = True"
| "is_literal e = False"


section \<open>General facts about the interpreter\<close>
















section \<open>The run of the notebook\<close>

text \<open>A run that is not an error has a final state.\<close>

lemma succeeded:
  "(case r of Inl e \<Rightarrow> False | Inr s \<Rightarrow> Q s) \<Longrightarrow> \<exists>s. r = Inr s \<and> Q s"
  by (cases r) simp_all

text \<open>
  Running all code cells from top to bottom raises no error of the model (every name is
  bound before it is read, every subscript of a local dictionary finds its key), and
  makes 37 external calls. Events are numbered from 0; \<open>VObj n\<close> is the object the
  \<open>n\<close>-th call returned.
\<close>

lemma notebook_runs: "\<exists>s. run notebook = Inr s"
proof -
  have "case run notebook of Inl e \<Rightarrow> False | Inr s \<Rightarrow> True"
    by code_simp
  then show ?thesis
    by (cases "run notebook") simp_all
qed

lemma notebook_trace:
  "trace_of notebook =
    [CallEv (VBuiltin ''print'') [VExt [''bilby'', ''__version__'']]
      [],
     CallEv (VExt [''numpy'', ''random'', ''seed'']) [VInt 1234] [],
     CallEv (VExt [''bilby'', ''gw'', ''WaveformGenerator'']) []
      [(''duration'', VNum 4), (''sampling_frequency'', VNum 2048),
       (''frequency_domain_source_model'',
        VExt
         [''bilby'', ''gw'', ''source'', ''lal_binary_black_hole'']),
       (''parameter_conversion'',
        VExt
         [''bilby'', ''gw'', ''conversion'',
          ''convert_to_lal_binary_black_hole_parameters'']),
       (''waveform_arguments'',
        VDict
         [(''waveform_approximant'', VStr ''IMRPhenomPv2''),
          (''reference_frequency'', VNum 50),
          (''minimum_frequency'', VNum 20),
          (''catch_waveform_errors'', VBool True)])],
     CallEv
      (VExt [''bilby'', ''gw'', ''detector'', ''InterferometerList''])
      [VList [VStr ''H1'', VStr ''L1'']] [],
     CallEv
      (VMember (VObj 3)
        ''set_strain_data_from_power_spectral_densities'')
      [] [(''sampling_frequency'', VNum 2048), (''duration'', VNum 4),
          (''start_time'', VNum (1126259639413 / 1000))],
     CallEv (VMember (VObj 3) ''inject_signal'') []
      [(''waveform_generator'', VObj 2),
       (''parameters'',
        VDict
         [(''mass_1'', VNum 36), (''mass_2'', VNum 29),
          (''a_1'', VNum (2 / 5)), (''a_2'', VNum (3 / 10)),
          (''tilt_1'', VNum (1 / 2)), (''tilt_2'', VNum 1),
          (''phi_12'', VNum (17 / 10)), (''phi_jl'', VNum (3 / 10)),
          (''luminosity_distance'', VNum 2000),
          (''theta_jn'', VNum (2 / 5)), (''psi'', VNum (2659 / 1000)),
          (''phase'', VNum (13 / 10)),
          (''geocent_time'', VNum (1126259642413 / 1000)),
          (''ra'', VNum (11 / 8)),
          (''dec'', VNum (- (3027 / 2500)))])],
     CallEv (VExt [''matplotlib'', ''pyplot'', ''subplots'']) [] [],
     CallEv (VExt [''numpy'', ''abs''])
      [VItem
        (VMember (VMember (VItem (VObj 3) (VInt 0)) ''strain_data'')
          ''frequency_domain_strain'')
        (VMember (VMember (VItem (VObj 3) (VInt 0)) ''strain_data'')
          ''frequency_mask'')]
      [],
     CallEv (VMember (VItem (VObj 6) (VInt 1)) ''loglog'')
      [VItem
        (VMember (VMember (VItem (VObj 3) (VInt 0)) ''strain_data'')
          ''frequency_array'')
        (VMember (VMember (VItem (VObj 3) (VInt 0)) ''strain_data'')
          ''frequency_mask''),
       VObj 7]
      [(''label'', VStr ''data'')],
     CallEv (VMember (VItem (VObj 6) (VInt 1)) ''loglog'')
      [VItem (VMember (VItem (VObj 3) (VInt 0)) ''frequency_array'')
        (VMember (VMember (VItem (VObj 3) (VInt 0)) ''strain_data'')
          ''frequency_mask''),
       VItem
        (VMember (VItem (VObj 3) (VInt 0))
          ''amplitude_spectral_density_array'')
        (VMember (VMember (VItem (VObj 3) (VInt 0)) ''strain_data'')
          ''frequency_mask'')]
      [(''label'', VStr ''ASD'')],
     CallEv (VExt [''numpy'', ''abs''])
      [VItem (VItem (VItem (VObj 5) (VInt 0)) (VStr ''plus''))
        (VMember (VMember (VItem (VObj 3) (VInt 0)) ''strain_data'')
          ''frequency_mask'')]
      [],
     CallEv (VMember (VItem (VObj 6) (VInt 1)) ''loglog'')
      [VItem (VMember (VItem (VObj 3) (VInt 0)) ''frequency_array'')
        (VMember (VMember (VItem (VObj 3) (VInt 0)) ''strain_data'')
          ''frequency_mask''),
       VObj 10]
      [(''label'', VStr ''Abs. val. of plus polarization'')],
     CallEv (VMember (VItem (VObj 6) (VInt 1)) ''set_xlabel'')
      [VStr ''Frequency [Hz]''] [],
     CallEv (VMember (VItem (VObj 6) (VInt 1)) ''set_ylabel'')
      [VStr
        (''Strain [strain/$'' @ [CHR 0x5C] @ ''sqrt{Hz}$]'')]
      [],
     CallEv (VMember (VItem (VObj 6) (VInt 1)) ''legend'') [] [],
     CallEv (VExt [''matplotlib'', ''pyplot'', ''show'']) [] [],
     CallEv (VExt [''bilby'', ''core'', ''prior'', ''PriorDict'']) []
      [],
     CallEv (VExt [''bilby'', ''core'', ''prior'', ''Uniform'']) []
      [(''name'', VStr ''chirp_mass''), (''minimum'', VNum 30),
       (''maximum'', VNum (65 / 2))],
     CallEv (VExt [''bilby'', ''core'', ''prior'', ''Uniform'']) []
      [(''name'', VStr ''mass_ratio''), (''minimum'', VNum (1 / 2)),
       (''maximum'', VInt 1)],
     CallEv (VExt [''bilby'', ''core'', ''prior'', ''Uniform'']) []
      [(''minimum'', VNum (1126259641413 / 1000)),
       (''maximum'', VNum (1126259643413 / 1000)),
       (''name'', VStr ''geocent_time''),
       (''latex_label'', VStr ''$t_c$''), (''unit'', VStr ''$s$'')],
     CallEv
      (VExt
        [''bilby'', ''gw'', ''likelihood'',
         ''GravitationalWaveTransient''])
      [] [(''interferometers'', VObj 3),
          (''waveform_generator'', VObj 2), (''priors'', VObj 16),
          (''time_marginalization'', VBool True),
          (''phase_marginalization'', VBool True),
          (''distance_marginalization'', VBool False)],
     CallEv (VExt [''bilby'', ''run_sampler'']) [VObj 20, VObj 16]
      [(''sampler'', VStr ''nestle''), (''outdir'', VStr ''short''),
       (''label'', VStr ''GW150914''),
       (''conversion_function'',
        VExt
         [''bilby'', ''gw'', ''conversion'',
          ''generate_all_bbh_parameters'']),
       (''sample'', VStr ''unif''), (''nlive'', VInt 500),
       (''dlogz'', VInt 3)],
     CallEv (VExt [''numpy'', ''quantile''])
      [VMember
        (VItem (VMember (VObj 21) ''posterior'')
          (VStr ''chirp_mass''))
        ''values'',
       VNum (1 / 20)]
      [],
     CallEv (VExt [''numpy'', ''quantile''])
      [VMember
        (VItem (VMember (VObj 21) ''posterior'')
          (VStr ''chirp_mass''))
        ''values'',
       VNum (19 / 20)]
      [],
     CallEv (VExt [''numpy'', ''quantile''])
      [VMember
        (VItem (VMember (VObj 21) ''posterior'')
          (VStr ''chirp_mass''))
        ''values'',
       VNum (1 / 2)]
      [],
     CallEv
      (VMember (VStr ''Mc = {} with a 90% C.I = {} -> {}'')
        ''format'')
      [VObj 24, VObj 22, VObj 23] [],
     CallEv (VBuiltin ''print'') [VObj 25] [],
     CallEv (VExt [''matplotlib'', ''pyplot'', ''subplots'']) [] [],
     CallEv (VMember (VItem (VObj 27) (VInt 1)) ''hist'')
      [VItem (VMember (VObj 21) ''posterior'') (VStr ''chirp_mass'')]
      [(''bins'', VInt 20)],
     CallEv (VMember (VItem (VObj 27) (VInt 1)) ''axvspan'')
      [VObj 22, VObj 23]
      [(''color'', VStr ''C1''), (''alpha'', VNum (2 / 5))],
     CallEv (VMember (VItem (VObj 27) (VInt 1)) ''axvline'') [VObj 24]
      [(''color'', VStr ''C1'')],
     CallEv (VMember (VItem (VObj 27) (VInt 1)) ''set_xlabel'')
      [VStr ''chirp mass''] [],
     CallEv (VExt [''matplotlib'', ''pyplot'', ''show'']) [] [],
     CallEv (VMember (VObj 21) ''plot_corner'') []
      [(''parameters'',
        VList
         [VStr ''chirp_mass'', VStr ''mass_ratio'',
          VStr ''geocent_time'']),
       (''prior'', VBool True)],
     CallEv (VMember (VObj 21) ''plot_corner'')
      [VDict [(''mass_1'', VInt 36), (''mass_2'', VInt 29)]] [],
     CallEv
      (VMember (VStr ''ln Bayes factor = {} +/- {}'') ''format'')
      [VMember (VObj 21) ''log_bayes_factor'',
       VMember (VObj 21) ''log_evidence_err'']
      [],
     CallEv (VBuiltin ''print'') [VObj 35] []]"
  by code_simp

section \<open>The order of the workflow\<close>

text \<open>
  Claim C1. The notebook performs the steps of the inference workflow in this order: it
  creates the two-detector network \<^verbatim>\<open>InterferometerList(['H1', 'L1'])\<close> (call 3) and
  sets its strain data from power spectral densities (call 4), injects the signal given
  by \<^verbatim>\<open>injection_parameters\<close> (call 5), builds the prior (the \<^verbatim>\<open>PriorDict\<close> of call
  16, which holds all of its 15 entries when the statement of call 20 starts and is not
  assigned to afterwards), constructs the likelihood \<^verbatim>\<open>GravitationalWaveTransient\<close>
  (call 20) from the network, the waveform generator and that prior, calls
  \<^verbatim>\<open>bilby.run_sampler\<close> with \<^verbatim>\<open>sampler='nestle'\<close> (call 21) on the likelihood and the
  prior, and only then plots the result (calls 28 to 30, 33 and 34). Each of these
  calls is made once (the corner plot twice). No step comes before what it depends on:
  the run raises no error, so every name is bound before it is read, and the objects
  each step mentions are those of the steps before it: the network for calls 4 and 5,
  the waveform generator for call 5, network, generator and prior for the likelihood,
  likelihood and prior for the sampler, the sampler's result for the quantiles (calls
  22 to 24) and for the plots, which draw the result or its quantiles on the axes of
  call 27.
\<close>

theorem workflow_order:
  "(\<exists>s. run notebook = Inr s) \<and>
   filter (\<lambda>(i, n). n \<in> set [''InterferometerList'',
       ''set_strain_data_from_power_spectral_densities'', ''inject_signal'', ''PriorDict'',
       ''GravitationalWaveTransient'', ''run_sampler'', ''hist'', ''axvspan'', ''axvline'',
       ''plot_corner''])
     (enumerate 0 (map callee_name (trace_of notebook))) =
     [(3, ''InterferometerList''), (4, ''set_strain_data_from_power_spectral_densities''),
      (5, ''inject_signal''), (16, ''PriorDict''), (20, ''GravitationalWaveTransient''),
      (21, ''run_sampler''), (28, ''hist''), (29, ''axvspan''), (30, ''axvline''),
      (33, ''plot_corner''), (34, ''plot_corner'')] \<and>
   trace_of notebook ! 3 =
     CallEv (VExt [''bilby'', ''gw'', ''detector'', ''InterferometerList''])
       [VList [VStr ''H1'', VStr ''L1'']] [] \<and>
   map (\<lambda>i. callee (trace_of notebook ! i)) [4, 5, 16, 20, 21, 33, 34] =
     [VMember (VObj 3) ''set_strain_data_from_power_spectral_densities'',
      VMember (VObj 3) ''inject_signal'',
      VExt [''bilby'', ''core'', ''prior'', ''PriorDict''],
      VExt [''bilby'', ''gw'', ''likelihood'', ''GravitationalWaveTransient''],
      VExt [''bilby'', ''run_sampler''],
      VMember (VObj 21) ''plot_corner'', VMember (VObj 21) ''plot_corner''] \<and>
   map (kwarg (trace_of notebook ! 20)) [''interferometers'', ''waveform_generator'', ''priors''] =
     [Some (VObj 3), Some (VObj 2), Some (VObj 16)] \<and>
   args (trace_of notebook ! 21) = [VObj 20, VObj 16] \<and>
   kwarg (trace_of notebook ! 21) ''sampler'' = Some (VStr ''nestle'') \<and>
   args (trace_of notebook ! 28) =
     [VItem (VMember (VObj 21) ''posterior'') (VStr ''chirp_mass'')] \<and>
   map (\<lambda>i. event_objects (trace_of notebook ! i))
     [4, 5, 20, 21, 22, 23, 24, 28, 29, 30, 33, 34] =
     [[3], [3, 2], [3, 2, 16], [20, 16], [21], [21], [21], [27, 21], [27, 22, 23], [27, 24],
      [21], [21]] \<and>
   (\<exists>s sf. state_before 20 notebook = Inr s \<and> run notebook = Inr sf \<and>
      length (trace s) = 20 \<and> lookup ''prior'' s = Inr (VObj 16) \<and>
      map_option Inr (kwarg (trace s ! 5) ''parameters'') =
        Some (lookup ''injection_parameters'' s) \<and>
      prior_keys s =
        map VStr [''chirp_mass'', ''mass_ratio'', ''geocent_time'', ''a_1'', ''a_2'',
          ''tilt_1'', ''tilt_2'', ''phi_12'', ''phi_jl'', ''psi'', ''ra'', ''dec'',
          ''luminosity_distance'', ''theta_jn'', ''phase''] \<and>
      store sf = store s)"
proof -
  have "case state_before 20 notebook of
          Inl e \<Rightarrow> False
        | Inr s \<Rightarrow>
            (case run notebook of
               Inl e \<Rightarrow> False
             | Inr sf \<Rightarrow>
                 length (trace s) = 20 \<and> lookup ''prior'' s = Inr (VObj 16) \<and>
                 map_option Inr (kwarg (trace s ! 5) ''parameters'') =
                   Some (lookup ''injection_parameters'' s) \<and>
                 prior_keys s =
                   map VStr [''chirp_mass'', ''mass_ratio'', ''geocent_time'', ''a_1'', ''a_2'',
                     ''tilt_1'', ''tilt_2'', ''phi_12'', ''phi_jl'', ''psi'', ''ra'', ''dec'',
                     ''luminosity_distance'', ''theta_jn'', ''phase''] \<and>
                 store sf = store s)"
    (is "case ?b of Inl e \<Rightarrow> False
          | Inr s \<Rightarrow> (case ?r of Inl e \<Rightarrow> False | Inr sf \<Rightarrow> ?P s sf)")
    by code_simp
  from succeeded [OF this] obtain s where
    first: "?b = Inr s \<and> (case ?r of Inl e \<Rightarrow> False | Inr sf \<Rightarrow> ?P s sf)" ..
  from succeeded [OF first [THEN conjunct2]] obtain sf where
    second: "?r = Inr sf \<and> ?P s sf" ..
  from first [THEN conjunct1] second have both: "?b = Inr s \<and> ?r = Inr sf \<and> ?P s sf"
    by (rule conjI)
  have prior: "\<exists>s sf. ?b = Inr s \<and> ?r = Inr sf \<and> ?P s sf"
    by (rule exI [of _ s], rule exI [of _ sf], rule both)
  show ?thesis
    unfolding notebook_trace
    by (intro conjI notebook_runs prior [unfolded notebook_trace]; code_simp)
qed

section \<open>Delegation to the library\<close>

text \<open>
  Claim C2. The heavy engineering is done by calls into bilby and nothing is implemented
  in the notebook. The notebook defines no function, no class and no lambda, and its
  only arithmetic shifts the injected time by 3 or by 1. It imports only
  \<^verbatim>\<open>__future__\<close>, numpy, matplotlib and bilby modules, and the 37 calls listed are all
  the calls it makes. Among them the waveform generator is created once, by
  \<^verbatim>\<open>bilby.gw.WaveformGenerator\<close> (call 2) with
  \<^verbatim>\<open>frequency_domain_source_model=bilby.gw.source.lal_binary_black_hole\<close>, and that
  object is the waveform generator of every call that takes one; the source model
  itself is never called. The likelihood is created once, by
  \<^verbatim>\<open>bilby.gw.likelihood.GravitationalWaveTransient\<close> with time and phase
  marginalization on and distance marginalization off; the sampler is run once, by
  \<^verbatim>\<open>bilby.run_sampler\<close> with \<^verbatim>\<open>sampler='nestle'\<close>; no other call generates a
  waveform, builds a likelihood or samples.
\<close>

theorem engineering_delegated:
  "local_definitions notebook = [] \<and> lambdas notebook = [] \<and>
   arithmetic notebook =
     [BinOp (Subscript (Name ''injection_parameters'') (Str ''geocent_time'')) Sub (IntLit 3),
      BinOp (Subscript (Name ''injection_parameters'') (Str ''geocent_time'')) Sub (IntLit 1),
      BinOp (Subscript (Name ''injection_parameters'') (Str ''geocent_time'')) Add (IntLit 1)] \<and>
   imported_modules notebook =
     [[''__future__''], [''numpy''], [''matplotlib'', ''pyplot''], [''bilby''],
      [''bilby'', ''core'', ''prior''], [''bilby'', ''gw'', ''conversion'']] \<and>
   (\<exists>s. run notebook = Inr s) \<and>
   map callee (trace_of notebook) =
     [VBuiltin ''print'',
      VExt [''numpy'', ''random'', ''seed''],
      VExt [''bilby'', ''gw'', ''WaveformGenerator''],
      VExt [''bilby'', ''gw'', ''detector'', ''InterferometerList''],
      VMember (VObj 3) ''set_strain_data_from_power_spectral_densities'',
      VMember (VObj 3) ''inject_signal'',
      VExt [''matplotlib'', ''pyplot'', ''subplots''],
      VExt [''numpy'', ''abs''],
      VMember (VItem (VObj 6) (VInt 1)) ''loglog'',
      VMember (VItem (VObj 6) (VInt 1)) ''loglog'',
      VExt [''numpy'', ''abs''],
      VMember (VItem (VObj 6) (VInt 1)) ''loglog'',
      VMember (VItem (VObj 6) (VInt 1)) ''set_xlabel'',
      VMember (VItem (VObj 6) (VInt 1)) ''set_ylabel'',
      VMember (VItem (VObj 6) (VInt 1)) ''legend'',
      VExt [''matplotlib'', ''pyplot'', ''show''],
      VExt [''bilby'', ''core'', ''prior'', ''PriorDict''],
      VExt [''bilby'', ''core'', ''prior'', ''Uniform''],
      VExt [''bilby'', ''core'', ''prior'', ''Uniform''],
      VExt [''bilby'', ''core'', ''prior'', ''Uniform''],
      VExt [''bilby'', ''gw'', ''likelihood'', ''GravitationalWaveTransient''],
      VExt [''bilby'', ''run_sampler''],
      VExt [''numpy'', ''quantile''],
      VExt [''numpy'', ''quantile''],
      VExt [''numpy'', ''quantile''],
      VMember (VStr ''Mc = {} with a 90% C.I = {} -> {}'') ''format'',
      VBuiltin ''print'',
      VExt [''matplotlib'', ''pyplot'', ''subplots''],
      VMember (VItem (VObj 27) (VInt 1)) ''hist'',
      VMember (VItem (VObj 27) (VInt 1)) ''axvspan'',
      VMember (VItem (VObj 27) (VInt 1)) ''axvline'',
      VMember (VItem (VObj 27) (VInt 1)) ''set_xlabel'',
      VExt [''matplotlib'', ''pyplot'', ''show''],
      VMember (VObj 21) ''plot_corner'',
      VMember (VObj 21) ''plot_corner'',
      VMember (VStr ''ln Bayes factor = {} +/- {}'') ''format'',
      VBuiltin ''print''] \<and>
   map (\<lambda>e. (callee e, kwarg e ''frequency_domain_source_model''))
     (filter (\<lambda>e. callee_name e = ''WaveformGenerator'') (trace_of notebook)) =
     [(VExt [''bilby'', ''gw'', ''WaveformGenerator''],
       Some (VExt [''bilby'', ''gw'', ''source'', ''lal_binary_black_hole'']))] \<and>
   map (\<lambda>e. (callee e, kwarg e ''waveform_generator''))
     (filter (\<lambda>e. kwarg e ''waveform_generator'' \<noteq> None) (trace_of notebook)) =
     [(VMember (VObj 3) ''inject_signal'', Some (VObj 2)),
      (VExt [''bilby'', ''gw'', ''likelihood'', ''GravitationalWaveTransient''], Some (VObj 2))] \<and>
   callee_name (trace_of notebook ! 2) = ''WaveformGenerator'' \<and>
   map (\<lambda>e. (callee e, kwarg e ''time_marginalization'', kwarg e ''phase_marginalization'',
         kwarg e ''distance_marginalization''))
     (filter (\<lambda>e. callee_name e = ''GravitationalWaveTransient'') (trace_of notebook)) =
     [(VExt [''bilby'', ''gw'', ''likelihood'', ''GravitationalWaveTransient''],
       Some (VBool True), Some (VBool True), Some (VBool False))] \<and>
   map (\<lambda>e. (callee e, kwarg e ''sampler''))
     (filter (\<lambda>e. callee_name e = ''run_sampler'') (trace_of notebook)) =
     [(VExt [''bilby'', ''run_sampler''], Some (VStr ''nestle''))]"
  unfolding notebook_trace by (intro conjI notebook_runs; code_simp)

section \<open>The injected signal\<close>

text \<open>
  Claim C5. The injected signal is fully specified by constants of the notebook:
  \<^verbatim>\<open>injection_parameters\<close> is assigned once, a \<^verbatim>\<open>dict(...)\<close> of 15 keyword arguments
  that are all literals, the notebook never assigns to an item of it, and the dictionary
  of these 15 values is the \<^verbatim>\<open>parameters\<close> argument of the one call of
  \<^verbatim>\<open>ifos.inject_signal\<close>.
\<close>

theorem injection_is_literal:
  "(\<exists>s. run notebook = Inr s) \<and>
   (\<exists>kws. assignments ''injection_parameters'' notebook = [Call (Name ''dict'') [] kws] \<and>
      length kws = 15 \<and> list_all is_literal (map snd kws)) \<and>
   filter (\<lambda>c. c = Name ''injection_parameters'') (item_targets notebook) = [] \<and>
   map (\<lambda>e. (callee e, kwarg e ''parameters''))
     (filter (\<lambda>e. callee_name e = ''inject_signal'') (trace_of notebook)) =
     [(VMember (VObj 3) ''inject_signal'',
       Some (VDict
         [(''mass_1'', VNum 36.0), (''mass_2'', VNum 29.0), (''a_1'', VNum 0.4),
          (''a_2'', VNum 0.3), (''tilt_1'', VNum 0.5), (''tilt_2'', VNum 1.0),
          (''phi_12'', VNum 1.7), (''phi_jl'', VNum 0.3),
          (''luminosity_distance'', VNum 2000.0), (''theta_jn'', VNum 0.4),
          (''psi'', VNum 2.659), (''phase'', VNum 1.3),
          (''geocent_time'', VNum 1126259642.413), (''ra'', VNum 1.375),
          (''dec'', VNum (- 1.2108))]))]"
proof (intro conjI)
  show "\<exists>s. run notebook = Inr s"
    by (rule notebook_runs)
next
  let ?kws =
    "[(''mass_1'', Num 36.0), (''mass_2'', Num 29.0), (''a_1'', Num 0.4),
      (''a_2'', Num 0.3), (''tilt_1'', Num 0.5), (''tilt_2'', Num 1.0),
      (''phi_12'', Num 1.7), (''phi_jl'', Num 0.3),
      (''luminosity_distance'', Num 2000.0), (''theta_jn'', Num 0.4),
      (''psi'', Num 2.659), (''phase'', Num 1.3),
      (''geocent_time'', Num 1126259642.413), (''ra'', Num 1.375),
      (''dec'', USub (Num 1.2108))]"
  have written: "assignments ''injection_parameters'' notebook = [Call (Name ''dict'') [] ?kws]"
    by code_simp
  have "length ?kws = 15" and "list_all is_literal (map snd ?kws)"
    by simp_all
  with written
  show "\<exists>kws. assignments ''injection_parameters'' notebook = [Call (Name ''dict'') [] kws] \<and>
      length kws = 15 \<and> list_all is_literal (map snd kws)"
    by blast
next
  show "filter (\<lambda>c. c = Name ''injection_parameters'') (item_targets notebook) = []"
    by code_simp
next
  show "map (\<lambda>e. (callee e, kwarg e ''parameters''))
     (filter (\<lambda>e. callee_name e = ''inject_signal'') (trace_of notebook)) =
     [(VMember (VObj 3) ''inject_signal'',
       Some (VDict
         [(''mass_1'', VNum 36.0), (''mass_2'', VNum 29.0), (''a_1'', VNum 0.4),
          (''a_2'', VNum 0.3), (''tilt_1'', VNum 0.5), (''tilt_2'', VNum 1.0),
          (''phi_12'', VNum 1.7), (''phi_jl'', VNum 0.3),
          (''luminosity_distance'', VNum 2000.0), (''theta_jn'', VNum 0.4),
          (''psi'', VNum 2.659), (''phase'', VNum 1.3),
          (''geocent_time'', VNum 1126259642.413), (''ra'', VNum 1.375),
          (''dec'', VNum (- 1.2108))]))]"
    unfolding notebook_trace by code_simp
qed

section \<open>Control flow\<close>



section \<open>The prior\<close>


end
